theory Spec2Isabelle
  imports Complex_Main "HOL-Library.Sublist" "HOL-Library.AList"
begin

section \<open>JavaScript values and the services of the runtime\<close>

text \<open>
  The parser works on whatever \<^verbatim>\<open>JSON.parse\<close> returns, so its values are modelled by
  one datatype. Numbers are finite and exact (a \<^typ>\<open>real\<close>, the infinities left out):
  the parser only compares them, takes minima and maxima, adds whole milliseconds and
  rounds down to the second. The association list of an object holds each key once.
  \<^verbatim>\<open>NaN\<close>, which \<^verbatim>\<open>Number(v)\<close> can produce, is a value of its own; where a function of
  the runtime returns a \<^typ>\<open>real option\<close>, \<open>None\<close> stands for it.
\<close>

datatype jsval =
    Undefined
  | JNull
  | JBool bool
  | JNum real
  | JNaN
  | JStr string
  | JArr "jsval list"
  | JObj "(string \<times> jsval) list"

datatype js_error = TypeError | RangeError

text \<open>
  Built-in functions of the language that the parser calls and that are not code of the
  repository are fields of one record, passed to every function that needs them:
  \<^item> \<open>JSON_parse s\<close> is \<^verbatim>\<open>JSON.parse(s)\<close>, \<open>None\<close> when it throws;
  \<^item> \<open>Date_getTime v\<close> is \<^verbatim>\<open>new Date(v).getTime()\<close>, \<open>None\<close> when it is NaN;
  \<^item> \<open>Date_now\<close> is \<^verbatim>\<open>Date.now()\<close>;
  \<^item> \<open>String_of v\<close> is \<^verbatim>\<open>String(v)\<close>, also used by template literals and
    property keys;
  \<^item> \<open>parseFloat_of s\<close> is \<^verbatim>\<open>parseFloat(s)\<close>, \<open>None\<close> when it is NaN;
  \<^item> \<open>Number_of_other v\<close> is \<^verbatim>\<open>Number(v)\<close> on strings, arrays and objects;
  \<^item> \<open>isoFormat x\<close> is the text of \<^verbatim>\<open>new Date(x).toISOString()\<close> for a time value
    inside the range of \<^verbatim>\<open>Date\<close>.
\<close>

record js_runtime =
  JSON_parse :: "string \<Rightarrow> jsval option"
  Date_getTime :: "jsval \<Rightarrow> real option"
  Date_now :: real
  String_of :: "jsval \<Rightarrow> string"
  parseFloat_of :: "string \<Rightarrow> real option"
  Number_of_other :: "jsval \<Rightarrow> real option"
  isoFormat :: "real \<Rightarrow> string"

fun truthy :: "jsval \<Rightarrow> bool" where
  "truthy Undefined = False"
| "truthy JNull = False"
| "truthy (JBool b) = b"
| "truthy (JNum x) = (x \<noteq> 0)"
| "truthy JNaN = False"
| "truthy (JStr s) = (s \<noteq> [])"
| "truthy (JArr xs) = True"
| "truthy (JObj kvs) = True"

fun nullish :: "jsval \<Rightarrow> bool" where
  "nullish Undefined = True"
| "nullish JNull = True"
| "nullish v = False"

text \<open>\<^verbatim>\<open>a ?? b\<close> and \<^verbatim>\<open>a || b\<close>.\<close>

definition coalesce :: "jsval \<Rightarrow> jsval \<Rightarrow> jsval" where
  "coalesce a b = (if nullish a then b else a)"

definition orElse :: "jsval \<Rightarrow> jsval \<Rightarrow> jsval" where
  "orElse a b = (if truthy a then a else b)"

text \<open>
  \<^verbatim>\<open>v.k\<close> for a value that is neither \<^verbatim>\<open>null\<close> nor \<^verbatim>\<open>undefined\<close> (reading a
  property of those raises, which the callers below check first). The keys read by the
  parser are own keys of parsed objects only; primitives and arrays have none of them.
\<close>

fun field :: "jsval \<Rightarrow> string \<Rightarrow> jsval" where
  "field (JObj kvs) k = (case map_of kvs k of None \<Rightarrow> Undefined | Some v \<Rightarrow> v)"
| "field v k = Undefined"

text \<open>
  \<^verbatim>\<open>for (const x of v)\<close>: arrays yield their elements, strings their characters, and every
  other value is not iterable.
\<close>

fun iterate :: "jsval \<Rightarrow> js_error + jsval list" where
  "iterate (JArr xs) = Inr xs"
| "iterate (JStr s) = Inr (map (\<lambda>c. JStr [c]) s)"
| "iterate v = Inl TypeError"

text \<open>\<^verbatim>\<open>Number(v)\<close>.\<close>

fun Number_of :: "js_runtime \<Rightarrow> jsval \<Rightarrow> jsval" where
  "Number_of rt (JNum x) = JNum x"
| "Number_of rt JNaN = JNaN"
| "Number_of rt (JBool b) = JNum (if b then 1 else 0)"
| "Number_of rt JNull = JNum 0"
| "Number_of rt Undefined = JNaN"
| "Number_of rt v = (case Number_of_other rt v of None \<Rightarrow> JNaN | Some x \<Rightarrow> JNum x)"

text \<open>
  \<^verbatim>\<open>new Date(x).toISOString()\<close>: a time value beyond 8.64e15 ms is clipped to an invalid
  date, on which \<^verbatim>\<open>toISOString\<close> throws a RangeError.
\<close>

definition toISOString :: "js_runtime \<Rightarrow> real \<Rightarrow> js_error + string" where
  "toISOString rt x =
     (if \<bar>x\<bar> > 8640000000000000 then Inl RangeError else Inr (isoFormat rt x))"

section \<open>Strings\<close>

text \<open>\<^verbatim>\<open>text.indexOf(pat, start)\<close> with \<open>None\<close> for \<open>-1\<close>.\<close>

fun findAt :: "string \<Rightarrow> string \<Rightarrow> nat \<Rightarrow> nat option" where
  "findAt pat [] j = (if pat = [] then Some j else None)"
| "findAt pat (c # cs) j = (if prefix pat (c # cs) then Some j else findAt pat cs (Suc j))"

definition indexOf :: "string \<Rightarrow> string \<Rightarrow> nat \<Rightarrow> nat option" where
  "indexOf text pat start = findAt pat (drop start text) (min start (length text))"

definition includes_str :: "string \<Rightarrow> string \<Rightarrow> bool" where
  "includes_str s pat = (indexOf s pat 0 \<noteq> None)"

text \<open>\<^verbatim>\<open>text.slice(a, b)\<close> for \<open>0 \<le> a\<close> and \<open>0 \<le> b\<close>.\<close>

definition slice :: "string \<Rightarrow> nat \<Rightarrow> nat \<Rightarrow> string" where
  "slice text a b = take (b - a) (drop a text)"

section \<open>The bracket-aware JSON extractor\<close>

definition dquote :: char where
  "dquote = CHR 0x22"

definition backslash :: char where
  "backslash = CHR 0x5C"

text \<open>
  The \<^verbatim>\<open>for\<close> loop of \<^verbatim>\<open>extractJsonFrom\<close>: the first argument is the text from index
  \<open>j\<close> on, and the result is the index of the closing brace at which the loop returns,
  \<open>None\<close> when the loop runs off the end of the text.
\<close>

fun braceScan :: "string \<Rightarrow> nat \<Rightarrow> int \<Rightarrow> bool \<Rightarrow> bool \<Rightarrow> nat option" where
  "braceScan [] j depth inStr esc = None"
| "braceScan (ch # rest) j depth inStr esc =
     (if inStr then
        (if esc then braceScan rest (Suc j) depth inStr False
         else if ch = backslash then braceScan rest (Suc j) depth inStr True
         else if ch = dquote then braceScan rest (Suc j) depth False esc
         else braceScan rest (Suc j) depth inStr esc)
      else
        (if ch = dquote then braceScan rest (Suc j) depth True esc
         else if ch = CHR ''{'' then braceScan rest (Suc j) (depth + 1) inStr esc
         else if ch = CHR ''}'' then
           (if depth - 1 = 0 then Some j
            else braceScan rest (Suc j) (depth - 1) inStr esc)
         else braceScan rest (Suc j) depth inStr esc))"

text \<open>
  \<^verbatim>\<open>extractJsonFrom(text, start)\<close>. The \<^verbatim>\<open>try\<close>/\<^verbatim>\<open>catch\<close> turns a parse error into
  \<^verbatim>\<open>null\<close>.
\<close>

definition extractJsonFrom :: "js_runtime \<Rightarrow> string \<Rightarrow> nat \<Rightarrow> jsval" where
  "extractJsonFrom rt text start =
     (case indexOf text ''{'' start of
        None \<Rightarrow> JNull
      | Some i \<Rightarrow>
          (case braceScan (drop i text) i 0 False False of
             None \<Rightarrow> JNull
           | Some j \<Rightarrow>
               (case JSON_parse rt (slice text i (j + 1)) of
                  None \<Rightarrow> JNull
                | Some v \<Rightarrow> v)))"

section \<open>Timestamps\<close>

definition parseISO :: "js_runtime \<Rightarrow> jsval \<Rightarrow> real option" where
  "parseISO rt t =
     (if \<not> truthy t then None
      else (case t of JNum x \<Rightarrow> Some x | _ \<Rightarrow> Date_getTime rt t))"

definition MIN_REASONABLE_TS :: real where
  "MIN_REASONABLE_TS = 1420070400000"

definition MAX_REASONABLE_TS :: "js_runtime \<Rightarrow> real" where
  "MAX_REASONABLE_TS rt = Date_now rt + 7 * 24 * 60 * 60 * 1000"

section \<open>Triplets and the status evaluator\<close>

datatype Phase = PhL1 | PhL2 | PhL3

datatype Status = Ok | Over | Under | Imbalance

datatype Session = InSession | Idle

text \<open>
  The entries of \<^verbatim>\<open>deviationDetails\<close>: the strings \<^verbatim>\<open>High\<close> and \<^verbatim>\<open>Low\<close>, and the
  imbalance note, which prints the triplet's delta.
\<close>

datatype deviation = High | Low | DeltaNote real

text \<open>
  \<^verbatim>\<open>connectorId\<close> is declared a number; at run time it holds what
  \<^verbatim>\<open>obj.connectorId || 1\<close> gave. The metadata fields copied from the boot, configuration
  and status tables are left out.
\<close>

record VoltageTriplet =
  tid :: string
  ts :: real
  dataset :: string
  connectorId :: jsval
  L1 :: "real option"
  L2 :: "real option"
  L3 :: "real option"
  delta :: real
  status :: Status
  session :: Session
  sessionId :: "string option"
  idTag :: "string option"
  deviationDetails :: "deviation list"

text \<open>\<^verbatim>\<open>[t.L1, t.L2, t.L3].filter(v => v !== null)\<close>.\<close>

definition presentVals :: "VoltageTriplet \<Rightarrow> real list" where
  "presentVals t = List.map_filter (\<lambda>v. v) [L1 t, L2 t, L3 t]"

definition evaluateStatus :: "VoltageTriplet \<Rightarrow> real \<Rightarrow> real \<Rightarrow> Status \<times> deviation list" where
  "evaluateStatus t vmin vmax =
     (let vals = presentVals t in
      if length vals > 0 then
        (let overs = filter (\<lambda>v. v > vmax) vals;
             unders = filter (\<lambda>v. v < vmin) vals;
             (status1, dev1) = (if overs \<noteq> [] then (Over, [High]) else (Ok, []));
             (status2, dev2) =
               (if unders \<noteq> []
                then (if status1 \<noteq> Over then Under else status1, dev1 @ [Low])
                else (status1, dev1))
         in if delta t \<ge> 15
            then (if status2 = Ok then Imbalance else status2, dev2 @ [DeltaNote (delta t)])
            else (status2, dev2))
      else (Ok, []))"

section \<open>Voltage points and the triplet builder\<close>

record VoltagePoint =
  p_dataset :: string
  p_connectorId :: jsval
  phase :: Phase
  p_ts :: real
  voltage :: real

text \<open>\<^verbatim>\<open>Math.floor(p.ts / 1000) * 1000\<close>.\<close>

definition roundedTs :: "VoltagePoint \<Rightarrow> real" where
  "roundedTs p = real_of_int \<lfloor>p_ts p / 1000\<rfloor> * 1000"

text \<open>The key is the template literal \<^verbatim>\<open>${p.dataset}|${p.connectorId}|${roundedTs}\<close>.\<close>

definition tripletKey :: "js_runtime \<Rightarrow> VoltagePoint \<Rightarrow> string" where
  "tripletKey rt p =
     p_dataset p @ ''|'' @ String_of rt (p_connectorId p) @ ''|'' @ String_of rt (JNum (roundedTs p))"

definition newTriplet :: "js_runtime \<Rightarrow> VoltagePoint \<Rightarrow> VoltageTriplet" where
  "newTriplet rt p =
     \<lparr>tid = tripletKey rt p, ts = roundedTs p, dataset = p_dataset p,
      connectorId = p_connectorId p, L1 = None, L2 = None, L3 = None, delta = 0,
      status = Ok, session = Idle, sessionId = None, idTag = None, deviationDetails = []\<rparr>"

fun setPhase :: "Phase \<Rightarrow> real \<Rightarrow> VoltageTriplet \<Rightarrow> VoltageTriplet" where
  "setPhase PhL1 v t = t\<lparr>L1 := Some v\<rparr>"
| "setPhase PhL2 v t = t\<lparr>L2 := Some v\<rparr>"
| "setPhase PhL3 v t = t\<lparr>L3 := Some v\<rparr>"

fun phaseVal :: "VoltageTriplet \<Rightarrow> Phase \<Rightarrow> real option" where
  "phaseVal t PhL1 = L1 t"
| "phaseVal t PhL2 = L2 t"
| "phaseVal t PhL3 = L3 t"

text \<open>
  The \<^verbatim>\<open>Map\<close> is an association list in insertion order: \<^const>\<open>AList.update\<close> replaces
  the value of a present key where it stands and appends an absent one. One round of the
  loop over the points: create the row when the key is new, then store the phase in the
  row found under the key.
\<close>

definition addPoint :: "js_runtime \<Rightarrow> (string \<times> VoltageTriplet) list \<Rightarrow> VoltagePoint
    \<Rightarrow> (string \<times> VoltageTriplet) list" where
  "addPoint rt m p =
     (let key = tripletKey rt p;
          m1 = (if map_of m key = None then AList.update key (newTriplet rt p) m else m)
      in case map_of m1 key of
           None \<Rightarrow> m1
         | Some t \<Rightarrow> AList.update key (setPhase (phase p) (voltage p) t) m1)"

text \<open>\<^verbatim>\<open>points.sort((a, b) => a.ts - b.ts)\<close> is a stable sort; then the loop.\<close>

definition tripletMap :: "js_runtime \<Rightarrow> VoltagePoint list \<Rightarrow> (string \<times> VoltageTriplet) list" where
  "tripletMap rt points = foldl (addPoint rt) [] (sort_key p_ts points)"

section \<open>Transaction spans and session matching\<close>

record TransactionSpan =
  tx :: string
  span_connectorId :: jsval
  startTs :: real
  endTs :: real
  span_idTag :: "string option"

text \<open>
  The spans of one connector: \<open>spanValues\<close> is \<^verbatim>\<open>Object.values(txSpansByTx)\<close>, grouped
  under the property key of the connector id and sorted by \<^verbatim>\<open>startTs\<close>.
\<close>

definition txSpansByConn :: "js_runtime \<Rightarrow> TransactionSpan list \<Rightarrow> jsval \<Rightarrow> TransactionSpan list" where
  "txSpansByConn rt spanValues c =
     sort_key startTs
       (filter (\<lambda>s. String_of rt (span_connectorId s) = String_of rt c) spanValues)"

text \<open>
  The loop \<^verbatim>\<open>for (let i = spans.length - 1; i >= 0; i--)\<close>, on the spans in the order the
  loop visits them (last first).
\<close>

fun scanSpans :: "real \<Rightarrow> TransactionSpan list \<Rightarrow> TransactionSpan option" where
  "scanSpans t [] = None"
| "scanSpans t (s # rest) =
     (if t + 60000 \<ge> startTs s \<and> t \<le> endTs s + 60000 then Some s
      else if startTs s < t - 10 * 60 * 1000 then None
      else scanSpans t rest)"

definition matchSession :: "TransactionSpan list \<Rightarrow> VoltageTriplet \<Rightarrow> VoltageTriplet" where
  "matchSession spans t =
     (case scanSpans (ts t) (rev spans) of
        Some active \<Rightarrow>
          (let t1 = t\<lparr>session := InSession, sessionId := Some (tx active)\<rparr>
           in case span_idTag active of
                None \<Rightarrow> t1
              | Some tag \<Rightarrow> (if tag \<noteq> [] then t1\<lparr>idTag := Some tag\<rparr> else t1))
      | None \<Rightarrow> t\<lparr>session := Idle\<rparr>)"

text \<open>
  One round of the loop over \<^verbatim>\<open>tripletMap.values()\<close>: \<open>None\<close> when the row has no phase
  and is not pushed.
\<close>

definition finalizeTriplet :: "js_runtime \<Rightarrow> real \<Rightarrow> real \<Rightarrow> TransactionSpan list
    \<Rightarrow> VoltageTriplet \<Rightarrow> VoltageTriplet option" where
  "finalizeTriplet rt vmin vmax spanValues t =
     (let vals = presentVals t in
      if length vals > 0 then
        (let minV = foldl min (hd vals) (tl vals);
             maxV = foldl max (hd vals) (tl vals);
             t1 = t\<lparr>delta := (if length vals > 1 then maxV - minV else 0)\<rparr>;
             (st, dev) = evaluateStatus t1 vmin vmax;
             t2 = t1\<lparr>status := st, deviationDetails := dev\<rparr>
         in Some (matchSession (txSpansByConn rt spanValues (connectorId t2)) t2))
      else None)"

text \<open>The \<^verbatim>\<open>triplets\<close> of the returned \<^verbatim>\<open>FileData\<close>, sorted by time.\<close>

definition fileTriplets :: "js_runtime \<Rightarrow> real \<Rightarrow> real \<Rightarrow> TransactionSpan list
    \<Rightarrow> VoltagePoint list \<Rightarrow> VoltageTriplet list" where
  "fileTriplets rt vmin vmax spanValues points =
     sort_key ts
       (List.map_filter (finalizeTriplet rt vmin vmax spanValues)
          (map snd (tripletMap rt points)))"

section \<open>The scans over the text\<close>

record StatusEvent =
  ev_ts :: real
  ev_status :: "string option"
  ev_errorCode :: "string option"

text \<open>
  The tables that the handlers fill while one file is parsed. \<^verbatim>\<open>statusTimeline\<close> is keyed
  by the number \<^verbatim>\<open>Number(connectorId)\<close> and \<^verbatim>\<open>txSpansByTx\<close> by the text of the
  transaction id; both are association lists in the order the keys were first written.
  Keys that a plain object inherits from its prototype are not modelled.
\<close>

record parse_state =
  points :: "VoltagePoint list"
  errors :: "string list"
  statusTimeline :: "(jsval \<times> StatusEvent list) list"
  txSpansByTx :: "(string \<times> TransactionSpan) list"

definition emptyState :: parse_state where
  "emptyState = \<lparr>points = [], errors = [], statusTimeline = [], txSpansByTx = []\<rparr>"

text \<open>A loop whose body may raise: the first error ends it.\<close>

fun foldE :: "('s \<Rightarrow> 'a \<Rightarrow> js_error + 's) \<Rightarrow> 's \<Rightarrow> 'a list \<Rightarrow> js_error + 's" where
  "foldE f st [] = Inr st"
| "foldE f st (x # xs) = (case f st x of Inl e \<Rightarrow> Inl e | Inr st' \<Rightarrow> foldE f st' xs)"

definition readAnyTimestamp :: "js_runtime \<Rightarrow> jsval \<Rightarrow> real option" where
  "readAnyTimestamp rt v =
     (if \<not> truthy v then None
      else parseISO rt
        (coalesce (field v ''timestamp'') (coalesce (field v ''timeStamp'')
          (coalesce (field v ''ts'') (coalesce (field v ''time'')
            (coalesce (field v ''datetime'') (field v ''dateTime'')))))))"

definition pushStatus :: "jsval \<Rightarrow> StatusEvent \<Rightarrow> parse_state \<Rightarrow> parse_state" where
  "pushStatus conn ev st =
     (let old = (case map_of (statusTimeline st) conn of None \<Rightarrow> [] | Some evs \<Rightarrow> evs)
      in st\<lparr>statusTimeline := AList.update conn (old @ [ev]) (statusTimeline st)\<rparr>)"

text \<open>\<^verbatim>\<open>v?.k\<close>.\<close>

definition optField :: "jsval \<Rightarrow> string \<Rightarrow> jsval" where
  "optField v k = (if nullish v then Undefined else field v k)"

definition optString :: "js_runtime \<Rightarrow> jsval \<Rightarrow> string option" where
  "optString rt v = (if truthy v then Some (String_of rt v) else None)"

text \<open>The handler of the \<^verbatim>\<open>StatusNotification\<close> scan.\<close>

definition statusNotification :: "js_runtime \<Rightarrow> jsval \<Rightarrow> nat \<Rightarrow> parse_state \<Rightarrow> js_error + parse_state" where
  "statusNotification rt obj pos st =
     (let conn = Number_of rt (coalesce (field obj ''connectorId'') (JNum 0));
          tsv = (case readAnyTimestamp rt obj of
                   Some x \<Rightarrow> Some x
                 | None \<Rightarrow> readAnyTimestamp rt (field obj ''payload''))
      in case tsv of
           None \<Rightarrow> Inr st
         | Some t \<Rightarrow>
             (if t < MIN_REASONABLE_TS \<or> t > MAX_REASONABLE_TS rt then
                (case toISOString rt t of
                   Inl e \<Rightarrow> Inl e
                 | Inr isoText \<Rightarrow>
                     Inr (st\<lparr>errors := errors st @
                       [''Suspicious timestamp (StatusNotification): '' @ [dquote]
                        @ String_of rt (coalesce (field obj ''timestamp'')
                                         (coalesce (field obj ''ts'') (JStr [])))
                        @ [dquote] @ '' -> '' @ isoText @ '' near char ''
                        @ String_of rt (JNum (real pos))]\<rparr>))
              else
                (let sv = coalesce (field obj ''status'') (optField (field obj ''statusInfo'') ''status'');
                     err = coalesce (field obj ''errorCode'')
                             (optField (field obj ''statusInfo'') ''errorCode'')
                 in Inr (pushStatus conn
                      \<lparr>ev_ts = t, ev_status = optString rt sv, ev_errorCode = optString rt err\<rparr> st))))"

text \<open>
  The widening of a span, shared by the three places that write \<^verbatim>\<open>txSpansByTx\<close>: the
  entry under the key, or a fresh one, gets the minimum start, the maximum end and the
  connector of this observation.
\<close>

definition widenSpan :: "string \<Rightarrow> jsval \<Rightarrow> real \<Rightarrow> (string \<times> TransactionSpan) list \<Rightarrow> TransactionSpan" where
  "widenSpan key conn t spans =
     (let cur = (case map_of spans key of
                   None \<Rightarrow> \<lparr>tx = key, span_connectorId = conn, startTs = t, endTs = t,
                             span_idTag = None\<rparr>
                 | Some c \<Rightarrow> c)
      in cur\<lparr>startTs := min (startTs cur) t, endTs := max (endTs cur) t,
             span_connectorId := conn\<rparr>)"

text \<open>The handlers of the \<^verbatim>\<open>StartTransaction\<close> and \<^verbatim>\<open>StopTransaction\<close> scans.\<close>

definition startTransaction :: "js_runtime \<Rightarrow> jsval \<Rightarrow> nat \<Rightarrow> parse_state \<Rightarrow> js_error + parse_state" where
  "startTransaction rt obj pos st =
     (let txv = coalesce (field obj ''transactionId'') (field obj ''transactionID'');
          conn = coalesce (field obj ''connectorId'') (JNum 1)
      in case readAnyTimestamp rt obj of
           None \<Rightarrow> Inr st
         | Some t \<Rightarrow>
             (if \<not> truthy txv then Inr st
              else
                (let key = String_of rt txv;
                     cur = widenSpan key (Number_of rt conn) t (txSpansByTx st);
                     cur1 = (if truthy (field obj ''idTag'')
                             then cur\<lparr>span_idTag := Some (String_of rt (field obj ''idTag''))\<rparr>
                             else cur)
                 in Inr (st\<lparr>txSpansByTx := AList.update key cur1 (txSpansByTx st)\<rparr>))))"

definition stopTransaction :: "js_runtime \<Rightarrow> jsval \<Rightarrow> nat \<Rightarrow> parse_state \<Rightarrow> js_error + parse_state" where
  "stopTransaction rt obj pos st =
     (let txv = coalesce (field obj ''transactionId'') (field obj ''transactionID'');
          conn = coalesce (field obj ''connectorId'') (JNum 1)
      in case readAnyTimestamp rt obj of
           None \<Rightarrow> Inr st
         | Some t \<Rightarrow>
             (if \<not> truthy txv then Inr st
              else
                (let key = String_of rt txv;
                     cur = widenSpan key (Number_of rt conn) t (txSpansByTx st)
                 in Inr (st\<lparr>txSpansByTx := AList.update key cur (txSpansByTx st)\<rparr>))))"

section \<open>The meter values\<close>

definition upperChar :: "char \<Rightarrow> char" where
  "upperChar c =
     (let n = (of_char c :: nat) in if 97 \<le> n \<and> n \<le> 122 then char_of (n - 32) else c)"

text \<open>
  \<^verbatim>\<open>s.toUpperCase()\<close> on the letters a to z; the other characters play no part in the
  tests made on the result.
\<close>

definition toUpperCase :: "string \<Rightarrow> string" where
  "toUpperCase s = map upperChar s"

definition normPhase :: "js_runtime \<Rightarrow> jsval \<Rightarrow> Phase option" where
  "normPhase rt p =
     (if \<not> truthy p then None
      else
        (let s = toUpperCase (String_of rt p)
         in if includes_str s ''L1'' then Some PhL1
            else if includes_str s ''L2'' then Some PhL2
            else if includes_str s ''L3'' then Some PhL3
            else None))"

text \<open>The test \<^verbatim>\<open>/^Voltage(\.L[123])?$/i\<close>.\<close>

definition voltageRe :: "string \<Rightarrow> bool" where
  "voltageRe m =
     (let u = toUpperCase m
      in u = ''VOLTAGE'' \<or> u = ''VOLTAGE.L1'' \<or> u = ''VOLTAGE.L2'' \<or> u = ''VOLTAGE.L3'')"

text \<open>\<^verbatim>\<open>s.split('.').pop()\<close>: what follows the last dot.\<close>

definition lastSegment :: "string \<Rightarrow> string" where
  "lastSegment s = rev (takeWhile (\<lambda>c. c \<noteq> CHR ''.'') (rev s))"

text \<open>\<^verbatim>\<open>s.replace(',', '.')\<close>: the first comma only.\<close>

fun replaceComma :: "string \<Rightarrow> string" where
  "replaceComma [] = []"
| "replaceComma (c # cs) = (if c = CHR '','' then CHR ''.'' # cs else c # replaceComma cs)"

text \<open>The body of the loop over \<^verbatim>\<open>mv.sampledValue\<close>.\<close>

definition sampledValueStep :: "js_runtime \<Rightarrow> string \<Rightarrow> jsval \<Rightarrow> real \<Rightarrow> parse_state \<Rightarrow> jsval
    \<Rightarrow> js_error + parse_state" where
  "sampledValueStep rt file_name conn dt st sv =
     (if nullish sv then Inl TypeError
      else
        (let m = String_of rt (orElse (field sv ''measurand'') (JStr []));
             isVolts = (m = ''Voltage'' \<or> voltageRe m)
         in if \<not> isVolts then Inr st
            else
              (let phaseRaw = orElse (field sv ''phase'')
                                (JStr (lastSegment (String_of rt (field sv ''measurand''))));
                   val = parseFloat_of rt
                           (replaceComma (String_of rt (coalesce (field sv ''value'') (JStr []))))
               in case (normPhase rt phaseRaw, val) of
                    (Some ph, Some v) \<Rightarrow>
                      (if v < 600
                       then Inr (st\<lparr>points := points st @
                              [\<lparr>p_dataset = file_name, p_connectorId = conn, phase = ph,
                                p_ts = dt, voltage = v\<rparr>]\<rparr>)
                       else Inr st)
                  | _ \<Rightarrow> Inr st)))"

text \<open>The body of the loop over \<^verbatim>\<open>obj.meterValue\<close>.\<close>

definition meterValueEntry :: "js_runtime \<Rightarrow> string \<Rightarrow> jsval \<Rightarrow> jsval \<Rightarrow> nat \<Rightarrow> parse_state \<Rightarrow> jsval
    \<Rightarrow> js_error + parse_state" where
  "meterValueEntry rt file_name conn txv pos st mv =
     (if nullish mv then Inl TypeError
      else
        (case parseISO rt (field mv ''timestamp'') of
           None \<Rightarrow>
             Inr (st\<lparr>errors := errors st @
               [''Invalid timestamp: '' @ [dquote] @ String_of rt (field mv ''timestamp'')
                @ [dquote] @ '' near char '' @ String_of rt (JNum (real pos))]\<rparr>)
         | Some dt \<Rightarrow>
             (if dt < MIN_REASONABLE_TS \<or> dt > MAX_REASONABLE_TS rt then
                (case toISOString rt dt of
                   Inl e \<Rightarrow> Inl e
                 | Inr isoText \<Rightarrow>
                     Inr (st\<lparr>errors := errors st @
                       [''Suspicious timestamp: '' @ [dquote]
                        @ String_of rt (field mv ''timestamp'') @ [dquote] @ '' -> '' @ isoText
                        @ '' near char '' @ String_of rt (JNum (real pos))]\<rparr>))
              else
                (let st1 = (if truthy txv
                            then (let key = String_of rt txv
                                  in st\<lparr>txSpansByTx :=
                                       AList.update key (widenSpan key conn dt (txSpansByTx st))
                                         (txSpansByTx st)\<rparr>)
                            else st)
                 in case iterate (orElse (field mv ''sampledValue'') (JArr [])) of
                      Inl e \<Rightarrow> Inl e
                    | Inr svs \<Rightarrow> foldE (sampledValueStep rt file_name conn dt) st1 svs))))"

text \<open>What the loop does with the object found after one \<^verbatim>\<open>MeterValues\<close> marker.\<close>

definition meterValues :: "js_runtime \<Rightarrow> string \<Rightarrow> jsval \<Rightarrow> nat \<Rightarrow> parse_state \<Rightarrow> js_error + parse_state" where
  "meterValues rt file_name obj pos st =
     (if truthy obj \<and> truthy (field obj ''meterValue'') then
        (let conn = orElse (field obj ''connectorId'') (JNum 1);
             txv = coalesce (field obj ''transactionId'')
                     (coalesce (field obj ''transactionID'')
                       (coalesce (field obj ''transactionid'') JNull))
         in case iterate (orElse (field obj ''meterValue'') (JArr [])) of
              Inl e \<Rightarrow> Inl e
            | Inr mvs \<Rightarrow> foldE (meterValueEntry rt file_name conn txv pos) st mvs)
      else Inr st)"

section \<open>The aggregate statistics\<close>

text \<open>Of \<^verbatim>\<open>FileData\<close>, the fields the statistics read.\<close>

record FileData =
  name :: string
  enabled :: bool
  triplets :: "VoltageTriplet list"
  parsingErrors :: "string list"

record GlobalSettings =
  cfg_vmin :: real
  cfg_vmax :: real
  timezone :: string

datatype Risk = Low_risk | Medium_risk | High_risk

record PhaseDetailedStats =
  ph_min :: real
  ph_max :: real
  avg :: real
  underCount :: nat
  overCount :: nat
  zeroCount :: nat

record AnalysisStats =
  totalPoints :: nat
  startTime :: "real option"
  endTime :: "real option"
  durationHours :: real
  cntUnder :: nat
  cntOver :: nat
  cntImbalance :: nat
  cntDeepDip :: nat
  cntInvalidDates :: nat
  maxDelta :: real
  riskLevel :: Risk
  phases :: "Phase \<Rightarrow> PhaseDetailedStats"

text \<open>The statistics under construction, with the local \<^verbatim>\<open>sums\<close> and \<^verbatim>\<open>counts\<close>.\<close>

record stats_loop =
  acc :: AnalysisStats
  sums_acc :: "Phase \<Rightarrow> real"
  counts_acc :: "Phase \<Rightarrow> nat"

definition reevaluate :: "GlobalSettings \<Rightarrow> VoltageTriplet \<Rightarrow> VoltageTriplet" where
  "reevaluate cfg t =
     (let (st, dev) = evaluateStatus t (cfg_vmin cfg) (cfg_vmax cfg)
      in t\<lparr>status := st, deviationDetails := dev\<rparr>)"

definition allData :: "FileData list \<Rightarrow> GlobalSettings \<Rightarrow> VoltageTriplet list" where
  "allData files cfg =
     sort_key ts (map (reevaluate cfg) (concat (map triplets (filter enabled files))))"

definition initPhaseStats :: PhaseDetailedStats where
  "initPhaseStats =
     \<lparr>ph_min = 999, ph_max = 0, avg = 0, underCount = 0, overCount = 0, zeroCount = 0\<rparr>"

text \<open>The body of the \<^verbatim>\<open>forEach\<close> over the three phases of one triplet.\<close>

definition phaseStep :: "GlobalSettings \<Rightarrow> VoltageTriplet \<Rightarrow> stats_loop \<Rightarrow> Phase \<Rightarrow> stats_loop" where
  "phaseStep cfg t st ph =
     (case phaseVal t ph of
        None \<Rightarrow> st
      | Some val \<Rightarrow>
          (let ps = phases (acc st) ph;
               ps1 = (if val < ph_min ps then ps\<lparr>ph_min := val\<rparr> else ps);
               ps2 = (if val > ph_max ps1 then ps1\<lparr>ph_max := val\<rparr> else ps1);
               ps3 = (if val < cfg_vmin cfg then ps2\<lparr>underCount := underCount ps2 + 1\<rparr> else ps2);
               ps4 = (if val > cfg_vmax cfg then ps3\<lparr>overCount := overCount ps3 + 1\<rparr> else ps3);
               s1 = (acc st)\<lparr>phases := fun_upd (phases (acc st)) ph ps4\<rparr>;
               s2 = (if val < 190 then s1\<lparr>cntDeepDip := cntDeepDip s1 + 1\<rparr> else s1)
           in st\<lparr>acc := s2,
                 sums_acc := fun_upd (sums_acc st) ph (sums_acc st ph + val),
                 counts_acc := fun_upd (counts_acc st) ph (counts_acc st ph + 1)\<rparr>))"

text \<open>The body of the loop \<^verbatim>\<open>for (const t of allData)\<close>.\<close>

definition tripletStep :: "GlobalSettings \<Rightarrow> stats_loop \<Rightarrow> VoltageTriplet \<Rightarrow> stats_loop" where
  "tripletStep cfg st t =
     (let s = acc st;
          s1 = (if status t = Under then s\<lparr>cntUnder := cntUnder s + 1\<rparr> else s);
          s2 = (if status t = Over then s1\<lparr>cntOver := cntOver s1 + 1\<rparr> else s1);
          s3 = (if status t = Imbalance then s2\<lparr>cntImbalance := cntImbalance s2 + 1\<rparr> else s2);
          s4 = (if delta t > maxDelta s3 then s3\<lparr>maxDelta := delta t\<rparr> else s3)
      in foldl (phaseStep cfg t) (st\<lparr>acc := s4\<rparr>) [PhL1, PhL2, PhL3])"

text \<open>The second \<^verbatim>\<open>forEach\<close>: averages, and the minimum of a phase never seen.\<close>

definition finishPhase :: "stats_loop \<Rightarrow> AnalysisStats \<Rightarrow> Phase \<Rightarrow> AnalysisStats" where
  "finishPhase st s ph =
     (let ps = phases s ph;
          ps1 = (if counts_acc st ph > 0 then ps\<lparr>avg := sums_acc st ph / real (counts_acc st ph)\<rparr> else ps);
          ps2 = (if ph_min ps1 = 999 then ps1\<lparr>ph_min := 0\<rparr> else ps1)
      in s\<lparr>phases := fun_upd (phases s) ph ps2\<rparr>)"

definition classifyRisk :: "AnalysisStats \<Rightarrow> AnalysisStats" where
  "classifyRisk s =
     (let totalViolations = cntUnder s + cntOver s + cntImbalance s
      in if cntDeepDip s > 0 \<or> maxDelta s > 30 \<or> cntInvalidDates s > 100
         then s\<lparr>riskLevel := High_risk\<rparr>
         else if totalViolations > 50 \<or> cntInvalidDates s > 10
         then s\<lparr>riskLevel := Medium_risk\<rparr>
         else s\<lparr>riskLevel := Low_risk\<rparr>)"

definition totalParsingErrors :: "FileData list \<Rightarrow> nat" where
  "totalParsingErrors files =
     foldl (\<lambda>sum f. sum + length (parsingErrors f)) 0 (filter enabled files)"

definition initialStats :: "FileData list \<Rightarrow> VoltageTriplet list \<Rightarrow> AnalysisStats" where
  "initialStats files allD =
     \<lparr>totalPoints = length allD,
      startTime = (if length allD > 0 then Some (ts (hd allD)) else None),
      endTime = (if length allD > 0 then Some (ts (last allD)) else None),
      durationHours = 0, cntUnder = 0, cntOver = 0, cntImbalance = 0, cntDeepDip = 0,
      cntInvalidDates = totalParsingErrors files, maxDelta = 0, riskLevel = Low_risk,
      phases = (\<lambda>ph. initPhaseStats)\<rparr>"

text \<open>\<^verbatim>\<open>if (s.startTime && s.endTime)\<close>: both present and not zero.\<close>

definition withDuration :: "AnalysisStats \<Rightarrow> AnalysisStats" where
  "withDuration s =
     (case (startTime s, endTime s) of
        (Some b, Some e) \<Rightarrow>
          (if b \<noteq> 0 \<and> e \<noteq> 0 then s\<lparr>durationHours := (e - b) / (1000 * 60 * 60)\<rparr> else s)
      | _ \<Rightarrow> s)"

definition analysisStats :: "FileData list \<Rightarrow> GlobalSettings \<Rightarrow> AnalysisStats" where
  "analysisStats files cfg =
     (let allD = allData files cfg;
          s = initialStats files allD
      in if length allD = 0 then s
         else
           (let st = foldl (tripletStep cfg)
                       \<lparr>acc = withDuration s, sums_acc = (\<lambda>ph. 0), counts_acc = (\<lambda>ph. 0)\<rparr> allD;
                s1 = foldl (finishPhase st) (acc st) [PhL1, PhL2, PhL3]
            in classifyRisk s1))"

section \<open>The scan loops and the parse of a file\<close>

text \<open>
  \<^verbatim>\<open>scan(marker, handler)\<close>, with the cursor \<open>j\<close> and the tables as arguments. The source
  calls it with literal markers only; on an empty marker its loop would not advance, and
  the function makes no round.
\<close>

function scan :: "js_runtime \<Rightarrow> string \<Rightarrow> string
    \<Rightarrow> (jsval \<Rightarrow> nat \<Rightarrow> parse_state \<Rightarrow> js_error + parse_state)
    \<Rightarrow> nat \<Rightarrow> parse_state \<Rightarrow> js_error + parse_state" where
  "scan rt text marker handler j st =
     (if marker = [] then Inr st
      else
        (case indexOf text marker j of
           None \<Rightarrow> Inr st
         | Some p \<Rightarrow>
             (case (let obj = extractJsonFrom rt text p
                    in if truthy obj then handler obj p st else Inr st) of
                Inl e \<Rightarrow> Inl e
              | Inr st' \<Rightarrow> scan rt text marker handler (p + length marker) st')))"
  by pat_completeness auto
termination
proof (relation "measure (\<lambda>(rt, text, marker, handler, j, st). Suc (length text) - j)")
  show "wf (measure (\<lambda>(rt, text, marker, handler, j, st). Suc (length text) - j))"
    by simp
next
  fix rt :: js_runtime and doc marker :: string
    and handler :: "jsval \<Rightarrow> nat \<Rightarrow> parse_state \<Rightarrow> js_error + parse_state"
    and j p :: nat and st st' :: parse_state
  assume ne: "marker \<noteq> []" and found: "indexOf doc marker j = Some p"
  have bounds: "findAt pat cs k = Some q \<Longrightarrow> pat \<noteq> [] \<Longrightarrow> k \<le> q \<and> q + length pat \<le> k + length cs"
    for pat cs k q
  proof (induction cs arbitrary: k)
    case Nil
    then show ?case by simp
  next
    case (Cons c cs)
    show ?case
    proof (cases "prefix pat (c # cs)")
      case True
      with Cons.prems show ?thesis by (auto dest: prefix_length_le)
    next
      case False
      with Cons.prems have "findAt pat cs (Suc k) = Some q" by simp
      from Cons.IH[OF this Cons.prems(2)] show ?thesis by simp
    qed
  qed
  from bounds[OF found[unfolded indexOf_def] ne]
  have "min j (length doc) \<le> p" and le: "p + length marker \<le> length doc"
    by (auto simp: min_def split: if_splits)
  moreover obtain c cs where "marker = c # cs" using ne by (cases marker) auto
  ultimately have "j < p + length marker"
    by (auto simp: min_def split: if_splits)
  with le show "((rt, doc, marker, handler, p + length marker, st'), (rt, doc, marker, handler, j, st))
      \<in> measure (\<lambda>(rt, text, marker, handler, j, st). Suc (length text) - j)"
    by simp
qed

text \<open>
  The \<^verbatim>\<open>while (true)\<close> loop over the \<^verbatim>\<open>MeterValues\<close> markers; the cursor moves 12
  characters past each marker found.
\<close>

function meterValuesLoop :: "js_runtime \<Rightarrow> string \<Rightarrow> string \<Rightarrow> nat \<Rightarrow> parse_state
    \<Rightarrow> js_error + parse_state" where
  "meterValuesLoop rt file_name text idx st =
     (case indexOf text ''MeterValues'' idx of
        None \<Rightarrow> Inr st
      | Some pos \<Rightarrow>
          (case meterValues rt file_name (extractJsonFrom rt text pos) pos st of
             Inl e \<Rightarrow> Inl e
           | Inr st' \<Rightarrow> meterValuesLoop rt file_name text (pos + 12) st'))"
  by pat_completeness auto
termination
proof (relation "measure (\<lambda>(rt, file_name, text, idx, st). Suc (length text) - idx)")
  show "wf (measure (\<lambda>(rt, file_name, text, idx, st). Suc (length text) - idx))"
    by simp
next
  fix rt :: js_runtime and file_name doc :: string and idx pos :: nat and st st' :: parse_state
  assume found: "indexOf doc ''MeterValues'' idx = Some pos"
  have bounds: "findAt pat cs k = Some q \<Longrightarrow> pat \<noteq> [] \<Longrightarrow> k \<le> q \<and> q + length pat \<le> k + length cs"
    for pat cs k q
  proof (induction cs arbitrary: k)
    case Nil
    then show ?case by simp
  next
    case (Cons c cs)
    show ?case
    proof (cases "prefix pat (c # cs)")
      case True
      with Cons.prems show ?thesis by (auto dest: prefix_length_le)
    next
      case False
      with Cons.prems have "findAt pat cs (Suc k) = Some q" by simp
      from Cons.IH[OF this Cons.prems(2)] show ?thesis by simp
    qed
  qed
  from bounds[OF found[unfolded indexOf_def]]
  have "min idx (length doc) \<le> pos" and "pos + 11 \<le> length doc"
    by (auto simp: min_def split: if_splits)
  then show "((rt, file_name, doc, pos + 12, st'), (rt, file_name, doc, idx, st))
      \<in> measure (\<lambda>(rt, file_name, text, idx, st). Suc (length text) - idx)"
    by (auto simp: min_def split: if_splits)
qed

text \<open>
  \<^verbatim>\<open>Object.values(txSpansByTx)\<close>: the keys that are array indices (canonical decimal
  numerals below \<open>2^32 - 1\<close>) come first, in ascending order, then the other keys in the
  order they were written.
\<close>

definition isDigit :: "char \<Rightarrow> bool" where
  "isDigit c = (let n = (of_char c :: nat) in 48 \<le> n \<and> n \<le> 57)"

definition decimalValue :: "string \<Rightarrow> nat" where
  "decimalValue s = foldl (\<lambda>a c. 10 * a + ((of_char c :: nat) - 48)) 0 s"

definition arrayIndex :: "string \<Rightarrow> nat option" where
  "arrayIndex s =
     (if s \<noteq> [] \<and> list_all isDigit s \<and> (s = ''0'' \<or> hd s \<noteq> CHR ''0'')
         \<and> decimalValue s < 4294967295
      then Some (decimalValue s) else None)"

definition objectValues :: "(string \<times> 'a) list \<Rightarrow> 'a list" where
  "objectValues al =
     map snd (sort_key (\<lambda>kv. decimalValue (fst kv)) (filter (\<lambda>kv. arrayIndex (fst kv) \<noteq> None) al))
     @ map snd (filter (\<lambda>kv. arrayIndex (fst kv) = None) al)"

text \<open>
  \<^verbatim>\<open>parseLogFile\<close>, from the text of the file to the triplets and the incidents of the
  returned \<^verbatim>\<open>FileData\<close>. The scans for \<^verbatim>\<open>BootNotification\<close>, \<^verbatim>\<open>GetConfiguration\<close> and
  \<^verbatim>\<open>DataTransfer\<close>, the fallback search and the alert counts are left out with the
  metadata they collect: they write neither points, nor incidents, nor spans.
\<close>

definition parseLogFile :: "js_runtime \<Rightarrow> string \<Rightarrow> string \<Rightarrow> real \<Rightarrow> real \<Rightarrow> js_error + FileData" where
  "parseLogFile rt file_name text vmin vmax =
     (case scan rt text ''StatusNotification'' (statusNotification rt) 0 emptyState of
        Inl e \<Rightarrow> Inl e
      | Inr st1 \<Rightarrow>
     (case scan rt text ''StartTransaction'' (startTransaction rt) 0 st1 of
        Inl e \<Rightarrow> Inl e
      | Inr st2 \<Rightarrow>
     (case scan rt text ''StopTransaction'' (stopTransaction rt) 0 st2 of
        Inl e \<Rightarrow> Inl e
      | Inr st3 \<Rightarrow>
     (case meterValuesLoop rt file_name text 0 st3 of
        Inl e \<Rightarrow> Inl e
      | Inr st4 \<Rightarrow>
          Inr \<lparr>name = file_name, enabled = True,
               triplets = fileTriplets rt vmin vmax (objectValues (txSpansByTx st4)) (points st4),
               parsingErrors = errors st4\<rparr>))))"

section \<open>Notions used in the statements\<close>



text \<open>The number of present phase values of a triplet below 190 V.\<close>

definition dipCount :: "VoltageTriplet \<Rightarrow> nat" where
  "dipCount t = length (filter (\<lambda>v. v < 190) (presentVals t))"

text \<open>
  The deep-dip count as the specification words it: the number of triplets, in the list
  the statistics run over, with at least one present phase value below 190 V.
\<close>

definition hasDeepDip :: "VoltageTriplet \<Rightarrow> bool" where
  "hasDeepDip t = (filter (\<lambda>v. v < 190) (presentVals t) \<noteq> [])"

definition deepDipTriplets :: "FileData list \<Rightarrow> GlobalSettings \<Rightarrow> nat" where
  "deepDipTriplets files cfg = length (filter hasDeepDip (allData files cfg))"

text \<open>
  The extractor as the specification words it. \<open>outsideString\<close> marks the characters that
  are not part of a quoted string literal, a backslash inside a literal escaping the next
  character. The depth after \<open>k\<close> characters counts the opening braces minus the closing
  braces among the marked ones; the balanced span is the shortest non-empty prefix of
  depth zero, and the result is its parse, or \<^verbatim>\<open>null\<close>.
\<close>

fun outsideString :: "bool \<Rightarrow> bool \<Rightarrow> string \<Rightarrow> bool list" where
  "outsideString inStr esc [] = []"
| "outsideString inStr esc (c # cs) =
     (if inStr then
        False # (if esc then outsideString True False cs
                 else if c = backslash then outsideString True True cs
                 else if c = dquote then outsideString False False cs
                 else outsideString True False cs)
      else (c \<noteq> dquote) # outsideString (c = dquote) False cs)"

definition braceDelta :: "char \<Rightarrow> bool \<Rightarrow> int" where
  "braceDelta c out =
     (if out \<and> c = CHR ''{'' then 1 else if out \<and> c = CHR ''}'' then - 1 else 0)"

definition depthAfter :: "bool \<Rightarrow> bool \<Rightarrow> string \<Rightarrow> nat \<Rightarrow> int" where
  "depthAfter inStr esc cs k = sum_list (take k (map2 braceDelta cs (outsideString inStr esc cs)))"

definition balancedEnd :: "string \<Rightarrow> nat option" where
  "balancedEnd cs = find (\<lambda>k. depthAfter False False cs k = 0) [1..<Suc (length cs)]"

definition extractJsonFrom_spec :: "js_runtime \<Rightarrow> string \<Rightarrow> nat \<Rightarrow> jsval" where
  "extractJsonFrom_spec rt text start =
     (case indexOf text ''{'' start of
        None \<Rightarrow> JNull
      | Some i \<Rightarrow>
          (case balancedEnd (drop i text) of
             None \<Rightarrow> JNull
           | Some k \<Rightarrow>
               (case JSON_parse rt (take k (drop i text)) of
                  None \<Rightarrow> JNull
                | Some v \<Rightarrow> v)))"



text \<open>
  A step of the meter loop from \<open>st\<close> to \<open>st'\<close> only appends points, all of them for the
  connector \<open>conn\<close>.
\<close>

definition addsFor :: "jsval \<Rightarrow> parse_state \<Rightarrow> parse_state \<Rightarrow> bool" where
  "addsFor conn st st' =
     (\<exists>new. points st' = points st @ new \<and> (\<forall>p \<in> set new. p_connectorId p = conn))"

section \<open>Example data\<close>

text \<open>A row as the triplet builder leaves it, with the given time, phases and delta.\<close>

definition rawTriplet :: "real \<Rightarrow> real option \<Rightarrow> real option \<Rightarrow> real option \<Rightarrow> real \<Rightarrow> VoltageTriplet" where
  "rawTriplet t a b c d =
     \<lparr>tid = ''a.log|1'', ts = t, dataset = ''a.log'', connectorId = JNum 1,
      L1 = a, L2 = b, L3 = c, delta = d, status = Ok, session = Idle,
      sessionId = None, idTag = None, deviationDetails = []\<rparr>"

definition defaultSettings :: GlobalSettings where
  "defaultSettings = \<lparr>cfg_vmin = 207, cfg_vmax = 253, timezone = ''Europe/Kyiv''\<rparr>"

text \<open>A file with a single triplet, two of whose phases are below 190 V.\<close>

definition twoDipsFile :: FileData where
  "twoDipsFile =
     \<lparr>name = ''a.log'', enabled = True,
      triplets = [rawTriplet 1704067200000 (Some 180) (Some 185) (Some 230) 50],
      parsingErrors = []\<rparr>"

text \<open>
  A file whose meter samples all carried a corrupted clock: no triplet, 150 incidents.
\<close>

definition corruptClockFile :: FileData where
  "corruptClockFile =
     \<lparr>name = ''a.log'', enabled = True, triplets = [],
      parsingErrors = replicate 150 ''Suspicious timestamp''\<rparr>"


text \<open>
  A runtime for the examples: it parses five message texts, knows five dates, prints
  whole numbers and strings as the language does, and its clock stands at
  2026-11-02T00:00:00Z.
\<close>

definition quoted :: "string \<Rightarrow> string" where
  "quoted s = dquote # s @ [dquote]"

text \<open>The decimal digits of a whole number that is not negative.\<close>

function digitsOf :: "int \<Rightarrow> string" where
  "digitsOf n =
     (if n < 10 then [char_of (48 + n)] else digitsOf (n div 10) @ [char_of (48 + n mod 10)])"
  by pat_completeness auto
termination
  by (relation "measure nat") auto

fun demoString :: "jsval \<Rightarrow> string" where
  "demoString Undefined = ''undefined''"
| "demoString JNull = ''null''"
| "demoString (JBool b) = (if b then ''true'' else ''false'')"
| "demoString (JNum x) = (if 0 \<le> x then digitsOf \<lfloor>x\<rfloor> else CHR ''-'' # digitsOf \<lfloor>- x\<rfloor>)"
| "demoString JNaN = ''NaN''"
| "demoString (JStr s) = s"
| "demoString (JArr xs) = []"
| "demoString (JObj kvs) = ''[object Object]''"

definition quoteMessage :: string where
  "quoteMessage = ''{'' @ quoted ''msg'' @ '':'' @ quoted ''a{b}c'' @ ''}''"

definition objectMeterMessage :: string where
  "objectMeterMessage =
     ''{'' @ quoted ''connectorId'' @ '':1,'' @ quoted ''meterValue'' @ '':{''
       @ quoted ''timestamp'' @ '':'' @ quoted ''2024-01-01T00:00:00Z'' @ ''}}''"

definition farFutureMessage :: string where
  "farFutureMessage =
     ''{'' @ quoted ''connectorId'' @ '':1,'' @ quoted ''meterValue'' @ '':[{''
       @ quoted ''timestamp'' @ '':10000000000000000,'' @ quoted ''sampledValue'' @ '':[]}]}''"

definition meterMessageL1 :: string where
  "meterMessageL1 =
     ''{'' @ quoted ''connectorId'' @ '':5,'' @ quoted ''meterValue'' @ '':[{''
       @ quoted ''timestamp'' @ '':'' @ quoted ''2024-01-01T00:00:00.100Z'' @ '',''
       @ quoted ''sampledValue'' @ '':[{'' @ quoted ''measurand'' @ '':'' @ quoted ''Voltage''
       @ '','' @ quoted ''phase'' @ '':'' @ quoted ''L1'' @ '','' @ quoted ''value'' @ '':''
       @ quoted ''230.5'' @ ''}]}]}''"

definition meterMessageL2 :: string where
  "meterMessageL2 =
     ''{'' @ quoted ''connectorId'' @ '':5,'' @ quoted ''meterValue'' @ '':[{''
       @ quoted ''timestamp'' @ '':'' @ quoted ''2024-01-01T00:00:00.700Z'' @ '',''
       @ quoted ''sampledValue'' @ '':[{'' @ quoted ''measurand'' @ '':''
       @ quoted ''Voltage.L2'' @ '','' @ quoted ''value'' @ '':'' @ quoted ''231,0'' @ ''}]}]}''"

definition twoMessagesLog :: string where
  "twoMessagesLog =
     ''10:00 MeterValues '' @ meterMessageL1 @ [CHR 0x0A] @ ''10:00 MeterValues '' @ meterMessageL2"

definition demoJson :: "string \<Rightarrow> jsval option" where
  "demoJson s =
     (if s = quoteMessage then Some (JObj [(''msg'', JStr ''a{b}c'')])
      else if s = meterMessageL1 then
        Some (JObj [(''connectorId'', JNum 5),
                    (''meterValue'', JArr [JObj [(''timestamp'', JStr ''2024-01-01T00:00:00.100Z''),
                       (''sampledValue'', JArr [JObj [(''measurand'', JStr ''Voltage''),
                          (''phase'', JStr ''L1''), (''value'', JStr ''230.5'')]])]])])
      else if s = meterMessageL2 then
        Some (JObj [(''connectorId'', JNum 5),
                    (''meterValue'', JArr [JObj [(''timestamp'', JStr ''2024-01-01T00:00:00.700Z''),
                       (''sampledValue'', JArr [JObj [(''measurand'', JStr ''Voltage.L2''),
                          (''value'', JStr ''231,0'')]])]])])
      else if s = objectMeterMessage then
        Some (JObj [(''connectorId'', JNum 1),
                    (''meterValue'', JObj [(''timestamp'', JStr ''2024-01-01T00:00:00Z'')])])
      else if s = farFutureMessage then
        Some (JObj [(''connectorId'', JNum 1),
                    (''meterValue'', JArr [JObj [(''timestamp'', JNum 10000000000000000),
                                                 (''sampledValue'', JArr [])]])])
      else None)"

definition demoDate :: "jsval \<Rightarrow> real option" where
  "demoDate v =
     (case v of
        JStr s \<Rightarrow>
          map_of [(''2024-01-01T00:00:00Z'', 1704067200000),
                  (''2024-01-01T00:00:00.100Z'', 1704067200100),
                  (''2024-01-01T00:00:00.700Z'', 1704067200700),
                  (''1999-01-01T00:00:00Z'', 915148800000),
                  (''2026-12-02T00:00:00Z'', 1796169600000)] s
      | _ \<Rightarrow> None)"

definition demoRuntime :: js_runtime where
  "demoRuntime =
     \<lparr>JSON_parse = demoJson,
      Date_getTime = demoDate,
      Date_now = 1793577600000,
      String_of = demoString,
      parseFloat_of = map_of [(''230.5'', 230.5), (''231.0'', 231)],
      Number_of_other = (\<lambda>v. None),
      isoFormat = (\<lambda>x. if x = 915148800000 then ''1999-01-01T00:00:00.000Z''
                        else if x = 1796169600000 then ''2026-12-02T00:00:00.000Z''
                        else ''2024-01-01T00:00:00.000Z'')\<rparr>"

text \<open>Two readings of connector 5 in the same second, on phases L1 and L2.\<close>

definition readingL1 :: VoltagePoint where
  "readingL1 = \<lparr>p_dataset = ''a.log'', p_connectorId = JNum 5, phase = PhL1,
                 p_ts = 1704067200100, voltage = 230.5\<rparr>"

definition readingL2 :: VoltagePoint where
  "readingL2 = \<lparr>p_dataset = ''a.log'', p_connectorId = JNum 5, phase = PhL2,
                 p_ts = 1704067200700, voltage = 231\<rparr>"



definition oldSampleMeter :: jsval where
  "oldSampleMeter =
     JObj [(''connectorId'', JNum 1),
           (''meterValue'', JArr [JObj [(''timestamp'', JStr ''1999-01-01T00:00:00Z''),
              (''sampledValue'', JArr [JObj [(''measurand'', JStr ''Voltage.L1''),
                                             (''value'', JStr ''230.5'')]])]])]"

definition futureSampleMeter :: jsval where
  "futureSampleMeter =
     JObj [(''connectorId'', JNum 1),
           (''meterValue'', JArr [JObj [(''timestamp'', JStr ''2026-12-02T00:00:00Z''),
              (''sampledValue'', JArr [JObj [(''measurand'', JStr ''Voltage.L1''),
                                             (''value'', JStr ''230.5'')]])]])]"

section \<open>Properties of the status evaluator\<close>

lemma presentVals_set: "set (presentVals t) = {v. L1 t = Some v \<or> L2 t = Some v \<or> L3 t = Some v}"
  by (auto simp: presentVals_def List.map_filter_def)

text \<open>
  C2. The status is \<open>Over\<close> when a present phase exceeds \<open>vmax\<close>; otherwise \<open>Under\<close> when a
  present phase is below \<open>vmin\<close>; otherwise \<open>Imbalance\<close> when the delta is at least 15;
  otherwise \<open>Ok\<close>. A triplet with no present phase is \<open>Ok\<close> with no deviation.
\<close>

theorem evaluateStatus_precedence:
  "fst (evaluateStatus t vmin vmax) =
     (if presentVals t = [] then Ok
      else if \<exists>v \<in> set (presentVals t). v > vmax then Over
      else if \<exists>v \<in> set (presentVals t). v < vmin then Under
      else if delta t \<ge> 15 then Imbalance
      else Ok)
   \<and> (presentVals t = [] \<longrightarrow> evaluateStatus t vmin vmax = (Ok, []))"
  by (auto simp: evaluateStatus_def Let_def filter_empty_conv)

theorem evaluateStatus_precedence_witness:
  "fst (evaluateStatus (rawTriplet 1704067200000 (Some 260) (Some 200) None 60) 207 253) = Over
   \<and> evaluateStatus (rawTriplet 1704067200000 None None None 0) 207 253 = (Ok, [])"
  using evaluateStatus_precedence [of "rawTriplet 1704067200000 (Some 260) (Some 200) None 60" 207 253]
    evaluateStatus_precedence [of "rawTriplet 1704067200000 None None None 0" 207 253]
  by (simp add: presentVals_def List.map_filter_def rawTriplet_def)

section \<open>Properties of session matching\<close>









lemma matchSession_session:
  "session (matchSession spans t) =
     (if scanSpans (ts t) (rev spans) = None then Idle else InSession)"
  by (simp add: matchSession_def Let_def split: option.splits)

lemma finalizeTriplet_session:
  assumes "finalizeTriplet rt vmin vmax spanValues t = Some t'"
  shows "session t' = session (matchSession (txSpansByConn rt spanValues (connectorId t)) t)"
  using assms
  by (auto simp: finalizeTriplet_def Let_def matchSession_session split: if_splits prod.splits)

lemma txSpansByConn_sorted: "sorted (map startTs (txSpansByConn rt spanValues c))"
  by (simp add: txSpansByConn_def)



section \<open>Properties of the aggregate statistics\<close>

lemma phaseStep_dip:
  "cntDeepDip (acc (phaseStep cfg t st ph)) =
     cntDeepDip (acc st) + (case phaseVal t ph of None \<Rightarrow> 0 | Some v \<Rightarrow> if v < 190 then 1 else 0)"
  by (simp add: phaseStep_def Let_def split: option.splits)

lemma tripletStep_dip:
  "cntDeepDip (acc (tripletStep cfg st t)) = cntDeepDip (acc st) + dipCount t"
  by (simp add: tripletStep_def Let_def phaseStep_dip dipCount_def presentVals_def
      List.map_filter_def split: option.splits)

lemma foldl_tripletStep_dip:
  "cntDeepDip (acc (foldl (tripletStep cfg) st xs)) = cntDeepDip (acc st) + sum_list (map dipCount xs)"
  by (induction xs arbitrary: st) (simp_all add: tripletStep_dip)

lemma finishPhase_fields:
  "cntDeepDip (finishPhase st s ph) = cntDeepDip s"
  "maxDelta (finishPhase st s ph) = maxDelta s"
  "cntInvalidDates (finishPhase st s ph) = cntInvalidDates s"
  "cntUnder (finishPhase st s ph) = cntUnder s"
  "cntOver (finishPhase st s ph) = cntOver s"
  "cntImbalance (finishPhase st s ph) = cntImbalance s"
  by (simp_all add: finishPhase_def Let_def)

lemma withDuration_fields:
  "cntDeepDip (withDuration s) = cntDeepDip s"
  "maxDelta (withDuration s) = maxDelta s"
  "cntInvalidDates (withDuration s) = cntInvalidDates s"
  "cntUnder (withDuration s) = cntUnder s"
  "cntOver (withDuration s) = cntOver s"
  "cntImbalance (withDuration s) = cntImbalance s"
  by (simp_all add: withDuration_def split: option.splits)

lemma classifyRisk_fields:
  "cntDeepDip (classifyRisk s) = cntDeepDip s"
  "maxDelta (classifyRisk s) = maxDelta s"
  "cntInvalidDates (classifyRisk s) = cntInvalidDates s"
  "cntUnder (classifyRisk s) = cntUnder s"
  "cntOver (classifyRisk s) = cntOver s"
  "cntImbalance (classifyRisk s) = cntImbalance s"
  by (simp_all add: classifyRisk_def Let_def)

lemma reevaluate_phases:
  "L1 (reevaluate cfg t) = L1 t" "L2 (reevaluate cfg t) = L2 t" "L3 (reevaluate cfg t) = L3 t"
  "delta (reevaluate cfg t) = delta t" "ts (reevaluate cfg t) = ts t"
  by (simp_all add: reevaluate_def split: prod.splits)

lemma dipCount_reevaluate: "dipCount (reevaluate cfg t) = dipCount t"
  by (simp add: dipCount_def presentVals_def reevaluate_phases)

lemma sum_list_sort_key: "sum_list (map f (sort_key k xs)) = sum_list (map (f::'a \<Rightarrow> nat) xs)"
proof -
  have ins: "sum_list (map f (insort_key k x ys)) = f x + sum_list (map f ys)" for x ys
    by (induction ys) simp_all
  show ?thesis by (induction xs) (simp_all add: ins)
qed

lemma allData_dip:
  "sum_list (map dipCount (allData files cfg)) =
     sum_list (map dipCount (concat (map triplets (filter enabled files))))"
  by (simp add: allData_def sum_list_sort_key comp_def dipCount_reevaluate)

text \<open>
  C6, as amended. The deep-dip counter is the number of present phase values below 190 V
  over all triplets of the enabled files: a triplet counts once for each of its phases
  below 190 V. The count does not depend on the thresholds.
\<close>

theorem cntDeepDip_counts_phase_values:
  "cntDeepDip (analysisStats files cfg) =
     sum_list (map dipCount (concat (map triplets (filter enabled files))))"
proof (cases "allData files cfg = []")
  case True
  then have "sum_list (map dipCount (allData files cfg)) = 0" by simp
  then have "sum_list (map dipCount (concat (map triplets (filter enabled files)))) = 0"
    by (simp only: allData_dip)
  with True show ?thesis
    by (simp add: analysisStats_def Let_def initialStats_def)
next
  case False
  then have "cntDeepDip (analysisStats files cfg) = sum_list (map dipCount (allData files cfg))"
    by (simp add: analysisStats_def Let_def classifyRisk_fields finishPhase_fields
        foldl_tripletStep_dip withDuration_fields initialStats_def)
  then show ?thesis by (simp only: allData_dip)
qed

theorem cntDeepDip_counts_phase_values_witness:
  "cntDeepDip (analysisStats [twoDipsFile] defaultSettings) = 2"
  using cntDeepDip_counts_phase_values [of "[twoDipsFile]" defaultSettings]
  by (simp add: twoDipsFile_def rawTriplet_def dipCount_def presentVals_def List.map_filter_def)

text \<open>
  C6, as stated, fails: one triplet with two phases below 190 V is counted twice.
\<close>

theorem cntDeepDip_not_per_triplet:
  "cntDeepDip (analysisStats [twoDipsFile] defaultSettings) = 2
   \<and> deepDipTriplets [twoDipsFile] defaultSettings = 1"
  by (simp add: twoDipsFile_def rawTriplet_def defaultSettings_def analysisStats_def allData_def
      reevaluate_def evaluateStatus_def presentVals_def List.map_filter_def Let_def
      initialStats_def withDuration_def tripletStep_def phaseStep_def finishPhase_def
      classifyRisk_def totalParsingErrors_def initPhaseStats_def deepDipTriplets_def
      hasDeepDip_def)

lemma phaseStep_invalid: "cntInvalidDates (acc (phaseStep cfg t st ph)) = cntInvalidDates (acc st)"
  by (simp add: phaseStep_def Let_def split: option.splits)

lemma tripletStep_invalid: "cntInvalidDates (acc (tripletStep cfg st t)) = cntInvalidDates (acc st)"
  by (simp add: tripletStep_def Let_def phaseStep_invalid)

lemma foldl_tripletStep_invalid:
  "cntInvalidDates (acc (foldl (tripletStep cfg) st xs)) = cntInvalidDates (acc st)"
  by (induction xs arbitrary: st) (simp_all add: tripletStep_invalid)

lemma totalParsingErrors_sum:
  "totalParsingErrors files = sum_list (map (\<lambda>f. length (parsingErrors f)) (filter enabled files))"
proof -
  have "foldl (\<lambda>sum f. sum + length (parsingErrors f)) a xs
      = a + sum_list (map (\<lambda>f. length (parsingErrors f)) xs)"
    for a :: nat and xs :: "FileData list"
    by (induction xs arbitrary: a) simp_all
  from this[of 0 "filter enabled files"] show ?thesis by (simp add: totalParsingErrors_def)
qed

lemma riskLevel_classifyRisk:
  "riskLevel (classifyRisk s) =
     (if cntDeepDip s > 0 \<or> maxDelta s > 30 \<or> cntInvalidDates s > 100 then High_risk
      else if cntUnder s + cntOver s + cntImbalance s > 50 \<or> cntInvalidDates s > 10 then Medium_risk
      else Low_risk)"
  by (simp add: classifyRisk_def Let_def)

lemma riskLevel_with_triplets:
  assumes "allData files cfg \<noteq> []"
  shows "riskLevel (analysisStats files cfg) =
     (if cntDeepDip (analysisStats files cfg) > 0 \<or> maxDelta (analysisStats files cfg) > 30
         \<or> cntInvalidDates (analysisStats files cfg) > 100 then High_risk
      else if cntUnder (analysisStats files cfg) + cntOver (analysisStats files cfg)
            + cntImbalance (analysisStats files cfg) > 50
         \<or> cntInvalidDates (analysisStats files cfg) > 10 then Medium_risk
      else Low_risk)"
proof -
  let ?st = "foldl (tripletStep cfg)
      \<lparr>acc = withDuration (initialStats files (allData files cfg)),
       sums_acc = (\<lambda>ph. 0), counts_acc = (\<lambda>ph. 0)\<rparr> (allData files cfg)"
  have s: "analysisStats files cfg = classifyRisk (foldl (finishPhase ?st) (acc ?st) [PhL1, PhL2, PhL3])"
    using assms by (simp add: analysisStats_def Let_def)
  show ?thesis unfolding s by (simp only: riskLevel_classifyRisk classifyRisk_fields)
qed

text \<open>
  C7, at the input where the code departs from it: a file with 150 incidents and no
  triplet is classified as low risk, because the statistics return before the
  classification when there is no triplet.
\<close>

theorem riskLevel_low_without_triplets:
  "cntInvalidDates (analysisStats [corruptClockFile] defaultSettings) = 150
   \<and> riskLevel (analysisStats [corruptClockFile] defaultSettings) = Low_risk"
  by (simp add: analysisStats_def allData_def corruptClockFile_def initialStats_def
      totalParsingErrors_def Let_def)

section \<open>Properties of the JSON extractor\<close>

lemma find_map_shift: "find P (map f xs) = map_option f (find (P \<circ> f) xs)"
  by (induction xs) simp_all

lemma upt_shift: "[1..<Suc (Suc n)] = 1 # map Suc [1..<Suc n]"
proof -
  have "[1..<Suc (Suc n)] = 1 # [Suc 1..<Suc (Suc n)]" by (simp add: upt_conv_Cons)
  also have "[Suc 1..<Suc (Suc n)] = map Suc [1..<Suc n]" by (simp only: map_Suc_upt)
  finally show ?thesis .
qed

lemma depthAfter_Cons:
  "depthAfter inStr esc (c # cs) (Suc k) =
     (if inStr then
        (if esc then depthAfter True False cs k
         else if c = backslash then depthAfter True True cs k
         else if c = dquote then depthAfter False False cs k
         else depthAfter True False cs k)
      else braceDelta c (c \<noteq> dquote) + depthAfter (c = dquote) False cs k)"
  by (simp add: depthAfter_def braceDelta_def)

lemma find_first_step:
  "find P [1..<Suc (Suc n)] = (if P 1 then Some 1 else map_option Suc (find (P \<circ> Suc) [1..<Suc n]))"
  by (simp only: upt_shift find.simps find_map_shift)

lemma find_cons_step:
  assumes "\<not> P 1" and "\<And>k. P (Suc k) = Q k"
  shows "map_option (\<lambda>k. j + k - 1) (find P [1..<Suc (Suc n)])
       = map_option (\<lambda>k. Suc j + k - 1) (find Q [1..<Suc n])"
proof -
  have "P \<circ> Suc = Q" using assms(2) by (simp add: fun_eq_iff)
  then have "find P [1..<Suc (Suc n)] = map_option Suc (find Q [1..<Suc n])"
    using assms(1) by (simp only: find_first_step if_False)
  then show ?thesis by (cases "find Q [1..<Suc n]") simp_all
qed

lemma find_cons_hit:
  assumes "P 1"
  shows "map_option (\<lambda>k. j + k - 1) (find P [1..<Suc (Suc n)]) = Some j"
  using assms by (simp only: find_first_step if_True) simp

lemma depthAfter_one:
  "depthAfter inStr esc (c # cs) (Suc 0) = (if inStr then 0 else braceDelta c (c \<noteq> dquote))"
  by (simp add: depthAfter_def braceDelta_def)

lemma quote_not_brace: "dquote \<noteq> CHR ''{''" "dquote \<noteq> CHR ''}''"
  by (simp_all add: dquote_def)

lemma braceScan_find:
  "1 \<le> d \<Longrightarrow> (\<not> inStr \<longrightarrow> \<not> esc) \<Longrightarrow>
   braceScan cs j d inStr esc =
     map_option (\<lambda>k. j + k - 1)
       (find (\<lambda>k. d + depthAfter inStr esc cs k = 0) [1..<Suc (length cs)])"
proof (induction cs arbitrary: j d inStr esc)
  case Nil
  then show ?case by simp
next
  case (Cons c cs)
  show ?case
  proof (cases inStr)
    case st: True
    consider (e) "esc" | (b) "\<not> esc" "c = backslash"
      | (q) "\<not> esc" "c \<noteq> backslash" "c = dquote"
      | (o) "\<not> esc" "c \<noteq> backslash" "c \<noteq> dquote" by blast
    then show ?thesis
    proof cases
      case e
      have "braceScan (c # cs) j d inStr esc = braceScan cs (Suc j) (d) True False"
        using st e by simp
      also have "\<dots> = map_option (\<lambda>k. Suc j + k - 1)
          (find (\<lambda>k. (d) + depthAfter True False cs k = 0) [1..<Suc (length cs)])"
        using Cons.prems e by (intro Cons.IH) simp_all
      also have "\<dots> = map_option (\<lambda>k. j + k - 1)
          (find (\<lambda>k. d + depthAfter inStr esc (c # cs) k = 0) [1..<Suc (Suc (length cs))])"
      proof (rule find_cons_step[symmetric])
        show "\<not> (d + depthAfter inStr esc (c # cs) 1 = 0)"
          using st e Cons.prems(1) by (simp add: depthAfter_one braceDelta_def)
        show "(d + depthAfter inStr esc (c # cs) (Suc k) = 0)
            = ((d) + depthAfter True False cs k = 0)" for k
          using st e by (simp add: depthAfter_Cons braceDelta_def algebra_simps)
      qed
      finally show ?thesis by simp
    next
      case b
      have "braceScan (c # cs) j d inStr esc = braceScan cs (Suc j) (d) True True"
        using st b by simp
      also have "\<dots> = map_option (\<lambda>k. Suc j + k - 1)
          (find (\<lambda>k. (d) + depthAfter True True cs k = 0) [1..<Suc (length cs)])"
        using Cons.prems b by (intro Cons.IH) simp_all
      also have "\<dots> = map_option (\<lambda>k. j + k - 1)
          (find (\<lambda>k. d + depthAfter inStr esc (c # cs) k = 0) [1..<Suc (Suc (length cs))])"
      proof (rule find_cons_step[symmetric])
        show "\<not> (d + depthAfter inStr esc (c # cs) 1 = 0)"
          using st b Cons.prems(1) by (simp add: depthAfter_one braceDelta_def)
        show "(d + depthAfter inStr esc (c # cs) (Suc k) = 0)
            = ((d) + depthAfter True True cs k = 0)" for k
          using st b by (simp add: depthAfter_Cons braceDelta_def algebra_simps)
      qed
      finally show ?thesis by simp
    next
      case q
      have "braceScan (c # cs) j d inStr esc = braceScan cs (Suc j) (d) False False"
        using st q by simp
      also have "\<dots> = map_option (\<lambda>k. Suc j + k - 1)
          (find (\<lambda>k. (d) + depthAfter False False cs k = 0) [1..<Suc (length cs)])"
        using Cons.prems q by (intro Cons.IH) simp_all
      also have "\<dots> = map_option (\<lambda>k. j + k - 1)
          (find (\<lambda>k. d + depthAfter inStr esc (c # cs) k = 0) [1..<Suc (Suc (length cs))])"
      proof (rule find_cons_step[symmetric])
        show "\<not> (d + depthAfter inStr esc (c # cs) 1 = 0)"
          using st q Cons.prems(1) by (simp add: depthAfter_one braceDelta_def)
        show "(d + depthAfter inStr esc (c # cs) (Suc k) = 0)
            = ((d) + depthAfter False False cs k = 0)" for k
          using st q by (simp add: depthAfter_Cons braceDelta_def algebra_simps)
      qed
      finally show ?thesis by simp
    next
      case o
      have "braceScan (c # cs) j d inStr esc = braceScan cs (Suc j) (d) True False"
        using st o by simp
      also have "\<dots> = map_option (\<lambda>k. Suc j + k - 1)
          (find (\<lambda>k. (d) + depthAfter True False cs k = 0) [1..<Suc (length cs)])"
        using Cons.prems o by (intro Cons.IH) simp_all
      also have "\<dots> = map_option (\<lambda>k. j + k - 1)
          (find (\<lambda>k. d + depthAfter inStr esc (c # cs) k = 0) [1..<Suc (Suc (length cs))])"
      proof (rule find_cons_step[symmetric])
        show "\<not> (d + depthAfter inStr esc (c # cs) 1 = 0)"
          using st o Cons.prems(1) by (simp add: depthAfter_one braceDelta_def)
        show "(d + depthAfter inStr esc (c # cs) (Suc k) = 0)
            = ((d) + depthAfter True False cs k = 0)" for k
          using st o by (simp add: depthAfter_Cons braceDelta_def algebra_simps)
      qed
      finally show ?thesis by simp
    qed
  next
    case nst: False
    with Cons.prems have ne: "\<not> esc" by simp
    note st = nst ne
    consider (q) "c = dquote" | (l) "c \<noteq> dquote" "c = CHR ''{''"
      | (r) "c \<noteq> dquote" "c = CHR ''}''" "d - 1 = 0"
      | (r') "c \<noteq> dquote" "c = CHR ''}''" "d - 1 \<noteq> 0"
      | (o) "c \<noteq> dquote" "c \<noteq> CHR ''{''" "c \<noteq> CHR ''}''" by blast
    then show ?thesis
    proof cases
      case q
      have "braceScan (c # cs) j d inStr esc = braceScan cs (Suc j) (d) True False"
        using st q by simp
      also have "\<dots> = map_option (\<lambda>k. Suc j + k - 1)
          (find (\<lambda>k. (d) + depthAfter True False cs k = 0) [1..<Suc (length cs)])"
        using Cons.prems q by (intro Cons.IH) simp_all
      also have "\<dots> = map_option (\<lambda>k. j + k - 1)
          (find (\<lambda>k. d + depthAfter inStr esc (c # cs) k = 0) [1..<Suc (Suc (length cs))])"
      proof (rule find_cons_step[symmetric])
        show "\<not> (d + depthAfter inStr esc (c # cs) 1 = 0)"
          using st q Cons.prems(1) by (simp add: depthAfter_one braceDelta_def)
        show "(d + depthAfter inStr esc (c # cs) (Suc k) = 0)
            = ((d) + depthAfter True False cs k = 0)" for k
          using st q by (simp add: depthAfter_Cons braceDelta_def algebra_simps)
      qed
      finally show ?thesis by simp
    next
      case l
      have "braceScan (c # cs) j d inStr esc = braceScan cs (Suc j) (d + 1) False False"
        using st l by simp
      also have "\<dots> = map_option (\<lambda>k. Suc j + k - 1)
          (find (\<lambda>k. (d + 1) + depthAfter False False cs k = 0) [1..<Suc (length cs)])"
        using Cons.prems l by (intro Cons.IH) simp_all
      also have "\<dots> = map_option (\<lambda>k. j + k - 1)
          (find (\<lambda>k. d + depthAfter inStr esc (c # cs) k = 0) [1..<Suc (Suc (length cs))])"
      proof (rule find_cons_step[symmetric])
        show "\<not> (d + depthAfter inStr esc (c # cs) 1 = 0)"
          using st l Cons.prems(1) by (simp add: depthAfter_one braceDelta_def)
        show "(d + depthAfter inStr esc (c # cs) (Suc k) = 0)
            = ((d + 1) + depthAfter False False cs k = 0)" for k
          using st l by (simp add: depthAfter_Cons braceDelta_def algebra_simps)
      qed
      finally show ?thesis by simp
    next
      case r
      have "braceScan (c # cs) j d inStr esc = Some j"
        using st r by simp
      also have "\<dots> = map_option (\<lambda>k. j + k - 1)
          (find (\<lambda>k. d + depthAfter inStr esc (c # cs) k = 0) [1..<Suc (Suc (length cs))])"
      proof (rule find_cons_hit[symmetric])
        show "d + depthAfter inStr esc (c # cs) 1 = 0"
          using st r by (simp add: depthAfter_one braceDelta_def)
      qed
      finally show ?thesis by simp
    next
      case r'
      have "braceScan (c # cs) j d inStr esc = braceScan cs (Suc j) (d - 1) False False"
        using st r' by simp
      also have "\<dots> = map_option (\<lambda>k. Suc j + k - 1)
          (find (\<lambda>k. (d - 1) + depthAfter False False cs k = 0) [1..<Suc (length cs)])"
        using Cons.prems r' by (intro Cons.IH) simp_all
      also have "\<dots> = map_option (\<lambda>k. j + k - 1)
          (find (\<lambda>k. d + depthAfter inStr esc (c # cs) k = 0) [1..<Suc (Suc (length cs))])"
      proof (rule find_cons_step[symmetric])
        show "\<not> (d + depthAfter inStr esc (c # cs) 1 = 0)"
          using st r' Cons.prems(1) by (simp add: depthAfter_one braceDelta_def)
        show "(d + depthAfter inStr esc (c # cs) (Suc k) = 0)
            = ((d - 1) + depthAfter False False cs k = 0)" for k
          using st r' by (simp add: depthAfter_Cons braceDelta_def algebra_simps)
      qed
      finally show ?thesis by simp
    next
      case o
      have "braceScan (c # cs) j d inStr esc = braceScan cs (Suc j) (d) False False"
        using st o by simp
      also have "\<dots> = map_option (\<lambda>k. Suc j + k - 1)
          (find (\<lambda>k. (d) + depthAfter False False cs k = 0) [1..<Suc (length cs)])"
        using Cons.prems o by (intro Cons.IH) simp_all
      also have "\<dots> = map_option (\<lambda>k. j + k - 1)
          (find (\<lambda>k. d + depthAfter inStr esc (c # cs) k = 0) [1..<Suc (Suc (length cs))])"
      proof (rule find_cons_step[symmetric])
        show "\<not> (d + depthAfter inStr esc (c # cs) 1 = 0)"
          using st o Cons.prems(1) by (simp add: depthAfter_one braceDelta_def)
        show "(d + depthAfter inStr esc (c # cs) (Suc k) = 0)
            = ((d) + depthAfter False False cs k = 0)" for k
          using st o by (simp add: depthAfter_Cons braceDelta_def algebra_simps)
      qed
      finally show ?thesis by simp
    qed
  qed
qed

lemma findAt_prefix:
  "findAt pat cs j = Some p \<Longrightarrow> j \<le> p \<and> prefix pat (drop (p - j) cs)"
proof (induction cs arbitrary: j)
  case Nil
  then show ?case by (simp split: if_splits)
next
  case (Cons c cs)
  show ?case
  proof (cases "prefix pat (c # cs)")
    case True
    with Cons.prems show ?thesis by simp
  next
    case False
    with Cons.prems have "findAt pat cs (Suc j) = Some p" by simp
    from Cons.IH[OF this] have le: "Suc j \<le> p" and pre: "prefix pat (drop (p - Suc j) cs)"
      by simp_all
    from le have "p - j = Suc (p - Suc j)" by simp
    with le pre show ?thesis by simp
  qed
qed

lemma indexOf_char:
  assumes "indexOf text [c] start = Some i"
  shows "\<exists>rest. drop i text = c # rest"
proof (cases "start \<le> length text")
  case True
  from findAt_prefix[OF assms[unfolded indexOf_def]] True
  have both: "start \<le> i \<and> prefix [c] (drop (i - start) (drop start text))"
    by (simp only: min_def if_True)
  then have "drop (i - start) (drop start text) = drop i text"
    by (simp only: drop_drop le_add_diff_inverse2)
  with both have "prefix [c] (drop i text)" by (simp only:)
  then show ?thesis by (auto simp: prefix_def)
next
  case False
  with assms show ?thesis by (simp add: indexOf_def)
qed

text \<open>
  C9. For every text and offset the extractor returns what the specification describes:
  the parse of the first balanced span that starts at the first opening brace at or after
  the offset, and \<^verbatim>\<open>null\<close> when there is no such brace, when the braces do not balance
  before the end of the text, or when the span does not parse. Braces inside string
  literals do not count, and no input makes the function raise.
\<close>

theorem extractJsonFrom_refines_spec:
  "extractJsonFrom rt text start = extractJsonFrom_spec rt text start"
proof (cases "indexOf text ''{'' start")
  case None
  then show ?thesis by (simp add: extractJsonFrom_def extractJsonFrom_spec_def)
next
  case (Some i)
  then obtain rest where d: "drop i text = CHR ''{'' # rest"
    using indexOf_char by blast
  let ?r = "find (\<lambda>k. 1 + depthAfter False False rest k = 0) [1..<Suc (length rest)]"
  have "braceScan (drop i text) i 0 False False = braceScan rest (Suc i) 1 False False"
    by (simp add: d dquote_def)
  also have "\<dots> = map_option (\<lambda>k. Suc i + k - 1) ?r"
    by (rule braceScan_find) simp_all
  finally have code: "braceScan (drop i text) i 0 False False = map_option (\<lambda>k. i + k) ?r"
    by (simp add: option.map_comp comp_def)
  have "\<not> (depthAfter False False (CHR ''{'' # rest) 1 = 0)"
    by (simp add: depthAfter_one braceDelta_def dquote_def)
  moreover have "(depthAfter False False (CHR ''{'' # rest) (Suc k) = 0)
      = (1 + depthAfter False False rest k = 0)" for k
    by (simp add: depthAfter_Cons braceDelta_def dquote_def)
  ultimately have "find (\<lambda>k. depthAfter False False (CHR ''{'' # rest) k = 0)
      [1..<Suc (Suc (length rest))] = map_option Suc ?r"
    by (simp only: find_first_step if_False comp_def)
  then have spec: "balancedEnd (drop i text) = map_option Suc ?r"
    by (simp add: balancedEnd_def d)
  show ?thesis
  proof (cases ?r)
    case None
    with code spec Some show ?thesis
      by (simp add: extractJsonFrom_def extractJsonFrom_spec_def)
  next
    case (Some k)
    have "slice text i (i + k + 1) = take (Suc k) (drop i text)"
      by (simp add: slice_def)
    with code spec Some \<open>indexOf text ''{'' start = Some i\<close> show ?thesis
      by (simp add: extractJsonFrom_def extractJsonFrom_spec_def)
  qed
qed

theorem extractJsonFrom_refines_spec_witness:
  "extractJsonFrom demoRuntime (''x '' @ quoteMessage @ '' y'') 0 = JObj [(''msg'', JStr ''a{b}c'')]
   \<and> extractJsonFrom_spec demoRuntime (''x '' @ quoteMessage @ '' y'') 0
       = JObj [(''msg'', JStr ''a{b}c'')]
   \<and> extractJsonFrom demoRuntime ''no brace here'' 0 = JNull
   \<and> extractJsonFrom demoRuntime ''{ never closed'' 0 = JNull
   \<and> extractJsonFrom demoRuntime ''{not json}'' 0 = JNull"
proof -
  have "extractJsonFrom_spec demoRuntime (''x '' @ quoteMessage @ '' y'') 0
      = JObj [(''msg'', JStr ''a{b}c'')]"
    by code_simp
  moreover have "extractJsonFrom_spec demoRuntime ''no brace here'' 0 = JNull" by code_simp
  moreover have "extractJsonFrom_spec demoRuntime ''{ never closed'' 0 = JNull" by code_simp
  moreover have "extractJsonFrom_spec demoRuntime ''{not json}'' 0 = JNull" by code_simp
  ultimately show ?thesis
    by (simp only: extractJsonFrom_refines_spec simp_thms)
qed

section \<open>Properties of the triplet builder\<close>


























lemma two_messages_one_triplet:
  "parseLogFile demoRuntime ''a.log'' twoMessagesLog 207 253 =
     Inr \<lparr>name = ''a.log'', enabled = True,
          triplets = [\<lparr>tid = ''a.log|5|1704067200000'', ts = 1704067200000, dataset = ''a.log'',
                       connectorId = JNum 5, L1 = Some 230.5, L2 = Some 231, L3 = None,
                       delta = 0.5, status = Ok, session = Idle, sessionId = None,
                       idTag = None, deviationDetails = []\<rparr>],
          parsingErrors = []\<rparr>"
  by code_simp

lemma same_second_example:
  "map (\<lambda>t. (tid t, L1 t, L2 t, L3 t))
       (fileTriplets demoRuntime 207 253 [] [readingL1, readingL2])
   = [(''a.log|5|1704067200000'', Some 230.5, Some 231, None)]"
  by code_simp

section \<open>Properties of the timestamp normalizer\<close>




section \<open>Properties of the message handlers\<close>



lemma addsFor_same_points: "points st' = points st \<Longrightarrow> addsFor conn st st'"
  by (simp add: addsFor_def)













lemma suspicious_prefix:
  "prefix ''Suspicious timestamp'' (''Suspicious timestamp: '' @ rest)"
  "\<not> prefix ''Invalid timestamp'' (''Suspicious timestamp: '' @ rest)"
  by (simp_all add: prefix_def)

lemma meterValueEntry_suspicious:
  assumes "\<not> nullish mv" and "parseISO rt (field mv ''timestamp'') = Some dt"
    and "dt < MIN_REASONABLE_TS \<or> dt > MAX_REASONABLE_TS rt"
    and "\<bar>dt\<bar> \<le> 8640000000000000"
  shows "\<exists>msg. meterValueEntry rt f conn txv pos st mv = Inr (st\<lparr>errors := errors st @ [msg]\<rparr>)
      \<and> prefix ''Suspicious timestamp'' msg \<and> \<not> prefix ''Invalid timestamp'' msg"
proof -
  let ?msg = "''Suspicious timestamp: '' @ ([dquote]
      @ String_of rt (field mv ''timestamp'') @ [dquote] @ '' -> '' @ isoFormat rt dt
      @ '' near char '' @ String_of rt (JNum (real pos)))"
  have "meterValueEntry rt f conn txv pos st mv = Inr (st\<lparr>errors := errors st @ [?msg]\<rparr>)"
    using assms by (simp add: meterValueEntry_def toISOString_def)
  then show ?thesis using suspicious_prefix by blast
qed

lemma meterValueEntry_out_of_range:
  assumes "\<not> nullish mv" and "parseISO rt (field mv ''timestamp'') = Some dt"
    and "dt < MIN_REASONABLE_TS \<or> dt > MAX_REASONABLE_TS rt"
    and "\<bar>dt\<bar> > 8640000000000000"
  shows "meterValueEntry rt f conn txv pos st mv = Inl RangeError"
  using assms by (simp add: meterValueEntry_def toISOString_def)

lemma old_and_future_samples_logged:
  "meterValues demoRuntime ''a.log'' oldSampleMeter 17 emptyState =
     Inr (emptyState\<lparr>errors := [''Suspicious timestamp: '' @ quoted ''1999-01-01T00:00:00Z''
            @ '' -> 1999-01-01T00:00:00.000Z near char 17'']\<rparr>)"
  "meterValues demoRuntime ''a.log'' futureSampleMeter 17 emptyState =
     Inr (emptyState\<lparr>errors := [''Suspicious timestamp: '' @ quoted ''2026-12-02T00:00:00Z''
            @ '' -> 2026-12-02T00:00:00.000Z near char 17'']\<rparr>)"
  by code_simp+

text \<open>
  C4, at the input where the code departs from it: a meter sample whose numeric timestamp
  lies beyond the range of dates is outside the plausibility window, but printing it for
  the incident raises, and the parse of the file ends with the error instead of an
  incident.
\<close>

theorem parse_aborts_on_unrepresentable_time:
  "parseLogFile demoRuntime ''a.log'' (''12:00 MeterValues '' @ farFutureMessage) 207 253
     = Inl RangeError"
  by code_simp

text \<open>
  C5, at the input where the code departs from it: a meter message whose
  \<^verbatim>\<open>meterValue\<close> is an object, not an array, makes the loop over it raise, and the
  parse of the file ends with the error.
\<close>

theorem parse_aborts_on_meterValue_object:
  "parseLogFile demoRuntime ''a.log'' (''12:00 MeterValues '' @ objectMeterMessage) 207 253
     = Inl TypeError"
  by code_simp

end
